theory Spec2Isabelle
  imports Main "HOL-Library.Word"
begin

section \<open>Data model of the editing session (src/App.tsx)\<close>

text \<open>
  The component keeps five pieces of state (the five \<^verbatim>\<open>useState\<close> cells of
  \<^verbatim>\<open>App\<close>, lines 30 to 34). A browser \<^verbatim>\<open>File\<close> is a blob of bytes with a declared
  media type; whether reading it can complete is a property of the blob's backing store,
  kept here as a flag. JavaScript strings are modelled as HOL strings.
\<close>

type_synonym byte = "8 word"

record File =
  fileBytes :: "byte list"
  fileType :: string
  fileReadable :: bool

record AppState =
  originalImageFile :: "File option"
  editedImage :: "string option"
  prompt :: string
  isLoading :: bool
  error :: "string option"

definition initialState :: AppState where
  "initialState =
     \<lparr>originalImageFile = None, editedImage = None, prompt = [], isLoading = False,
      error = None\<rparr>"

text \<open>
  A value thrown in the language is any value. The session reads only the
  \<^verbatim>\<open>message\<close> property of what it catches (lines 71 and 72), so three cases
  matter: \<^verbatim>\<open>null\<close> and \<^verbatim>\<open>undefined\<close>, on which reading a property throws a
  TypeError, and every other value, on which \<^verbatim>\<open>message\<close> is a text or is absent (an
  event object or a primitive has none). The kind is the taxonomy of the specification,
  with TypeError for the error the language itself raises.
\<close>

datatype failureKind = ReadError | TransportError | NoImageInResponse | TypeError

datatype thrown =
    ThrownNull
  | ThrownUndefined
  | Thrown failureKind "string option"

subsection \<open>Observable effects\<close>

text \<open>
  Everything a handler does is either a call of a state setter or a call of one of the two
  imported services. A handler is modelled by the sequence of effects it performs, in
  program order; the state after the handler is obtained by applying the setters.
\<close>

datatype effect =
    SetOriginalImageFile "File option"
  | SetEditedImage "string option"
  | SetPrompt string
  | SetIsLoading bool
  | SetError "string option"
  | CallFileToBase64 File
  | CallEditImageWithPrompt string string string

fun apply_effect :: "effect \<Rightarrow> AppState \<Rightarrow> AppState" where
  "apply_effect (SetOriginalImageFile f) s = s\<lparr>originalImageFile := f\<rparr>"
| "apply_effect (SetEditedImage r) s = s\<lparr>editedImage := r\<rparr>"
| "apply_effect (SetPrompt p) s = s\<lparr>prompt := p\<rparr>"
| "apply_effect (SetIsLoading b) s = s\<lparr>isLoading := b\<rparr>"
| "apply_effect (SetError e) s = s\<lparr>error := e\<rparr>"
| "apply_effect (CallFileToBase64 f) s = s"
| "apply_effect (CallEditImageWithPrompt b m p) s = s"

definition run_effects :: "effect list \<Rightarrow> AppState \<Rightarrow> AppState" where
  "run_effects es s = fold apply_effect es s"

fun is_call :: "effect \<Rightarrow> bool" where
  "is_call (CallFileToBase64 f) = True"
| "is_call (CallEditImageWithPrompt b m p) = True"
| "is_call _ = False"

subsection \<open>Asynchronous computations with exceptions\<close>

text \<open>
  An \<^verbatim>\<open>async\<close> body either completes with a value or rejects with a thrown value,
  and performs effects on the way. \<open>tryCatch\<close> and \<open>tryFinally\<close> are the
  \<^verbatim>\<open>try ... catch\<close> and \<^verbatim>\<open>try ... finally\<close> of the language: a handler runs only
  when the body rejected, a finaliser always runs and keeps the body's outcome unless it
  rejects itself.
\<close>

type_synonym 'a io = "(thrown + 'a) \<times> effect list"

definition emit :: "effect \<Rightarrow> unit io" where
  "emit e = (Inr (), [e])"

definition awaitCall :: "effect \<Rightarrow> (thrown + 'a) \<Rightarrow> 'a io" where
  "awaitCall c outcome = (outcome, [c])"

definition andThen :: "'a io \<Rightarrow> ('a \<Rightarrow> 'b io) \<Rightarrow> 'b io" where
  "andThen m k =
     (case m of
        (Inl e, t) \<Rightarrow> (Inl e, t)
      | (Inr x, t) \<Rightarrow> (case k x of (r, t') \<Rightarrow> (r, t @ t')))"

definition tryCatch :: "'a io \<Rightarrow> (thrown \<Rightarrow> 'a io) \<Rightarrow> 'a io" where
  "tryCatch body handler =
     (case body of
        (Inl e, t) \<Rightarrow> (case handler e of (r, t') \<Rightarrow> (r, t @ t'))
      | (Inr x, t) \<Rightarrow> (Inr x, t))"

definition tryFinally :: "'a io \<Rightarrow> unit io \<Rightarrow> 'a io" where
  "tryFinally body finaliser =
     (case body of
        (r, t) \<Rightarrow>
          (case finaliser of
             (Inl e, t') \<Rightarrow> (Inl e, t @ t')
           | (Inr u, t') \<Rightarrow> (r, t @ t')))"

subsection \<open>String helpers of the language\<close>

text \<open>
  \<^verbatim>\<open>String.prototype.trim\<close> removes white space and line terminators from both ends.
  Within the eight-bit character range these are the code points 9 to 13, 32 and 160.
\<close>

definition isWhiteSpace :: "char \<Rightarrow> bool" where
  "isWhiteSpace c =
     (let n = (of_char c :: nat) in (9 \<le> n \<and> n \<le> 13) \<or> n = 32 \<or> n = 160)"

definition trim :: "string \<Rightarrow> string" where
  "trim s = rev (dropWhile isWhiteSpace (rev (dropWhile isWhiteSpace s)))"

text \<open>
  Reading \<^verbatim>\<open>err.message\<close>. On \<^verbatim>\<open>null\<close> and \<^verbatim>\<open>undefined\<close> the language
  throws a TypeError; its text is the engine's (the wording below is V8's) and nothing in
  the component reads it.
\<close>

definition typeErrorText :: "string \<Rightarrow> string" where
  "typeErrorText what =
     ''Cannot read properties of '' @ what @ '' (reading '' @ [CHR 0x27] @ ''message''
     @ [CHR 0x27] @ '')''"

fun getMessage :: "thrown \<Rightarrow> (string option) io" where
  "getMessage (Thrown k msg) = (Inr msg, [])"
| "getMessage ThrownNull = (Inl (Thrown TypeError (Some (typeErrorText ''null''))), [])"
| "getMessage ThrownUndefined =
     (Inl (Thrown TypeError (Some (typeErrorText ''undefined''))), [])"

text \<open>\<^verbatim>\<open>err.message || fallback\<close>: the fallback is taken when the message is absent or empty.\<close>

fun orElse :: "string option \<Rightarrow> string \<Rightarrow> string" where
  "orElse None d = d"
| "orElse (Some m) d = (if m = [] then d else m)"

text \<open>The template literal of line 69.\<close>

definition dataUrl :: "string \<Rightarrow> string \<Rightarrow> string" where
  "dataUrl mimeType payload = ''data:'' @ mimeType @ '';base64,'' @ payload"

section \<open>The handlers\<close>

text \<open>
  \<^verbatim>\<open>handleImageChange\<close> (lines 43 to 50). The argument is \<^verbatim>\<open>event.target.files\<close>,
  which is null or a list of files; \<^verbatim>\<open>files?.[0]\<close> is undefined when it is null or
  empty.
\<close>

fun firstFile :: "File list option \<Rightarrow> File option" where
  "firstFile None = None"
| "firstFile (Some []) = None"
| "firstFile (Some (f # fs)) = Some f"

definition handleImageChange :: "File list option \<Rightarrow> effect list" where
  "handleImageChange files =
     (case firstFile files of
        Some file \<Rightarrow> [SetOriginalImageFile (Some file), SetEditedImage None, SetError None]
      | None \<Rightarrow> [])"

text \<open>
  \<^verbatim>\<open>handleSubmit\<close> (lines 52 to 76). The two imported services are parameters:
  \<open>fileToBase64\<close> yields the pair \<open>(base64, mimeType)\<close> or rejects,
  \<open>editImageWithPrompt\<close> yields the generated base64 text or rejects. The callback
  reads \<^verbatim>\<open>originalImageFile\<close> and \<^verbatim>\<open>prompt\<close> from the render it was created in,
  that is from the state \<open>s\<close> it is invoked in.
\<close>

definition handleSubmit ::
  "(File \<Rightarrow> thrown + string \<times> string) \<Rightarrow> (string \<Rightarrow> string \<Rightarrow> string \<Rightarrow> thrown + string) \<Rightarrow>
   AppState \<Rightarrow> unit io" where
  "handleSubmit fileToBase64 editImageWithPrompt s =
     (case originalImageFile s of
        None \<Rightarrow> emit (SetError (Some ''Please upload an image first.''))
      | Some file \<Rightarrow>
          if trim (prompt s) = [] then
            emit (SetError (Some ''Please enter an editing instruction.''))
          else
            andThen (emit (SetIsLoading True)) (\<lambda>_.
            andThen (emit (SetError None)) (\<lambda>_.
            andThen (emit (SetEditedImage None)) (\<lambda>_.
            tryFinally
              (tryCatch
                (andThen (awaitCall (CallFileToBase64 file) (fileToBase64 file))
                  (\<lambda>(base64, mimeType).
                 andThen (awaitCall (CallEditImageWithPrompt base64 mimeType (prompt s))
                            (editImageWithPrompt base64 mimeType (prompt s)))
                  (\<lambda>generatedImageBase64.
                 emit (SetEditedImage (Some (dataUrl mimeType generatedImageBase64))))))
                (\<lambda>err.
                 andThen (getMessage err) (\<lambda>msg.
                 emit (SetError (Some (orElse msg ''An unknown error occurred.''))))))
              (emit (SetIsLoading False))))))"

text \<open>The state a handler leaves behind when nothing else happens in between.\<close>

definition afterImageChange :: "File list option \<Rightarrow> AppState \<Rightarrow> AppState" where
  "afterImageChange files s = run_effects (handleImageChange files) s"

definition afterSubmit ::
  "(File \<Rightarrow> thrown + string \<times> string) \<Rightarrow> (string \<Rightarrow> string \<Rightarrow> string \<Rightarrow> thrown + string) \<Rightarrow>
   AppState \<Rightarrow> AppState" where
  "afterSubmit fileToBase64 editImageWithPrompt s =
     run_effects (snd (handleSubmit fileToBase64 editImageWithPrompt s)) s"

subsection \<open>Session phases\<close>

text \<open>
  The component has no phase variable; the phases of the specification are conditions on
  the five state cells, read off the render function (lines 122 to 131, 139 and 151).
  \<open>Loading\<close> is the loader being shown. \<open>Idle\<close> is every state that is not loading:
  the session is interactive. \<open>Success\<close> and \<open>Failure\<close> are the interactive states
  that display an edited image, respectively an error message (the specification treats
  both as Idle for the next user action, and lets Idle carry a validation message).
  \<open>Validating\<close> is listed by the specification and is never observable: validation runs
  synchronously inside \<^verbatim>\<open>handleSubmit\<close>.
\<close>

datatype SessionPhase = Idle | Validating | Loading | Success | Failure

fun truthy :: "string option \<Rightarrow> bool" where
  "truthy None = False"
| "truthy (Some v) = (v \<noteq> [])"

fun inPhase :: "SessionPhase \<Rightarrow> AppState \<Rightarrow> bool" where
  "inPhase Idle s = (\<not> isLoading s)"
| "inPhase Validating s = False"
| "inPhase Loading s = isLoading s"
| "inPhase Success s = (\<not> isLoading s \<and> truthy (editedImage s))"
| "inPhase Failure s = (\<not> isLoading s \<and> truthy (error s))"

section \<open>The two imported services\<close>

text \<open>
  \<^verbatim>\<open>utils/fileUtils\<close> and \<^verbatim>\<open>services/geminiService\<close> are imported by the component
  (lines 3 and 4); their sources are not part of src/. They are modelled from sections 3,
  4.1 and 4.2 of the specification.
\<close>

record EncodedImage =
  payload :: string
  mediaType :: string

subsection \<open>The radix-64 text encoding\<close>

text \<open>
  Modelled from the spec: the body of \<^verbatim>\<open>fileToBase64\<close> is missing; section 4.1 asks
  for "a standard text-safe encoding (radix-64 alphabet) of the raw bytes". This is the
  standard alphabet A-Z, a-z, 0-9, plus, slash, with = as padding: three bytes become four
  characters, a final group of one or two bytes is padded.
\<close>

definition b64char :: "nat \<Rightarrow> char" where
  "b64char n =
     (if n < 26 then char_of (65 + n)
      else if n < 52 then char_of (71 + n)
      else if n < 62 then char_of (n - 4)
      else if n = 62 then CHR ''+''
      else CHR ''/'')"

definition b64val :: "char \<Rightarrow> nat option" where
  "b64val c =
     (let n = (of_char c :: nat) in
      if 65 \<le> n \<and> n \<le> 90 then Some (n - 65)
      else if 97 \<le> n \<and> n \<le> 122 then Some (n - 71)
      else if 48 \<le> n \<and> n \<le> 57 then Some (n + 4)
      else if n = 43 then Some 62
      else if n = 47 then Some 63
      else None)"

fun base64_encode :: "byte list \<Rightarrow> string" where
  "base64_encode [] = []"
| "base64_encode [a] =
     [b64char (unat a div 4), b64char ((unat a mod 4) * 16), CHR ''='', CHR ''='']"
| "base64_encode [a, b] =
     [b64char (unat a div 4), b64char ((unat a mod 4) * 16 + unat b div 16),
      b64char ((unat b mod 16) * 4), CHR ''='']"
| "base64_encode (a # b # c # rest) =
     [b64char (unat a div 4), b64char ((unat a mod 4) * 16 + unat b div 16),
      b64char ((unat b mod 16) * 4 + unat c div 64), b64char (unat c mod 64)]
     @ base64_encode rest"

text \<open>
  Modelled from the spec: the decoder is the inverse the round-trip property of section 8
  speaks of; no decoder is part of the repository. It reads groups of four characters and
  fails on a character outside the alphabet or on a length that is no multiple of four.
\<close>

fun base64_decode :: "string \<Rightarrow> byte list option" where
  "base64_decode [] = Some []"
| "base64_decode (c1 # c2 # c3 # c4 # rest) =
     (if c3 = CHR ''='' \<and> c4 = CHR ''='' \<and> rest = [] then
        (case (b64val c1, b64val c2) of
           (Some v1, Some v2) \<Rightarrow> Some [of_nat (v1 * 4 + v2 div 16)]
         | _ \<Rightarrow> None)
      else if c4 = CHR ''='' \<and> rest = [] then
        (case (b64val c1, b64val c2, b64val c3) of
           (Some v1, Some v2, Some v3) \<Rightarrow>
             Some [of_nat (v1 * 4 + v2 div 16), of_nat ((v2 mod 16) * 16 + v3 div 4)]
         | _ \<Rightarrow> None)
      else
        (case (b64val c1, b64val c2, b64val c3, b64val c4) of
           (Some v1, Some v2, Some v3, Some v4) \<Rightarrow>
             (case base64_decode rest of
                Some bytes \<Rightarrow>
                  Some (of_nat (v1 * 4 + v2 div 16) # of_nat ((v2 mod 16) * 16 + v3 div 4)
                        # of_nat ((v3 mod 4) * 64 + v4) # bytes)
              | None \<Rightarrow> None)
         | _ \<Rightarrow> None))"
| "base64_decode _ = None"

subsection \<open>ImageCodec\<close>

text \<open>
  Modelled from the spec: \<^verbatim>\<open>utils/fileUtils\<close> is missing. Section 4.1: encode reads
  the full binary content, encodes the raw bytes and records the blob's declared media
  type separately; it fails with ReadError when the read cannot complete, and in no other
  way. The specification names no message text for ReadError.
\<close>

definition encode :: "File \<Rightarrow> thrown + EncodedImage" where
  "encode blob =
     (if fileReadable blob then
        Inr \<lparr>payload = base64_encode (fileBytes blob), mediaType = fileType blob\<rparr>
      else Inl (Thrown ReadError None))"

text \<open>The component destructures the result as \<^verbatim>\<open>{ base64, mimeType }\<close> (line 67).\<close>

definition fileToBase64 :: "File \<Rightarrow> thrown + string \<times> string" where
  "fileToBase64 file =
     (case encode file of
        Inl e \<Rightarrow> Inl e
      | Inr enc \<Rightarrow> Inr (payload enc, mediaType enc))"

subsection \<open>EditRequestClient\<close>

text \<open>
  A remote response is an ordered collection of parts: text commentary, safety metadata,
  and generated images (section 4.2). The remote capability itself is an opaque
  collaborator: a function of the payload, the media type and the instruction that either
  cannot be completed (with or without a message) or yields a response.
\<close>

datatype responsePart =
    TextPart string
  | SafetyMetadata string
  | ImagePart (partMediaType: string) (partPayload: string)

type_synonym remote = "string \<Rightarrow> string \<Rightarrow> string \<Rightarrow> string option + responsePart list"

text \<open>
  Modelled from the spec: \<^verbatim>\<open>services/geminiService\<close> is missing. Section 4.2: "The
  client scans the parts in order and extracts the first part identifiable as an image".
\<close>

fun firstImagePart :: "responsePart list \<Rightarrow> EncodedImage option" where
  "firstImagePart [] = None"
| "firstImagePart (ImagePart mt pl # ps) = Some \<lparr>payload = pl, mediaType = mt\<rparr>"
| "firstImagePart (TextPart t # ps) = firstImagePart ps"
| "firstImagePart (SafetyMetadata m # ps) = firstImagePart ps"

fun isImagePart :: "responsePart \<Rightarrow> bool" where
  "isImagePart (ImagePart mt pl) = True"
| "isImagePart (TextPart t) = False"
| "isImagePart (SafetyMetadata m) = False"

text \<open>
  Modelled from the spec: \<^verbatim>\<open>services/geminiService\<close> is missing. Section 4.2:
  requestEdit sends one request carrying the payload, its media type and the instruction;
  a call that cannot be completed is a TransportError; a response without an image part is
  NoImageInResponse; otherwise the result is the matched part, its media type and its
  payload verbatim. The text of the NoImageInResponse message is not given by the
  specification and is a parameter.
\<close>

definition requestEdit :: "remote \<Rightarrow> string \<Rightarrow> EncodedImage \<Rightarrow> string \<Rightarrow> thrown + EncodedImage" where
  "requestEdit remoteCall noImageText encoded instruction =
     (case remoteCall (payload encoded) (mediaType encoded) instruction of
        Inl msg \<Rightarrow> Inl (Thrown TransportError msg)
      | Inr parts \<Rightarrow>
          (case firstImagePart parts of
             None \<Rightarrow> Inl (Thrown NoImageInResponse (Some noImageText))
           | Some result \<Rightarrow> Inr result))"

text \<open>
  The component calls the client as \<^verbatim>\<open>editImageWithPrompt(base64, mimeType, prompt)\<close>
  and uses what it returns as base64 text (\<^verbatim>\<open>generatedImageBase64\<close>, lines 68 and
  69): the client hands the payload of its result to the component.
\<close>

definition editImageWithPrompt :: "remote \<Rightarrow> string \<Rightarrow> string \<Rightarrow> string \<Rightarrow> string \<Rightarrow> thrown + string" where
  "editImageWithPrompt remoteCall noImageText base64 mimeType instruction =
     (case requestEdit remoteCall noImageText \<lparr>payload = base64, mediaType = mimeType\<rparr> instruction of
        Inl e \<Rightarrow> Inl e
      | Inr result \<Rightarrow> Inr (payload result))"

section \<open>The session as an event-driven system\<close>

text \<open>
  \<^verbatim>\<open>handleSubmit\<close> is asynchronous: it suspends at each \<^verbatim>\<open>await\<close>, and other
  handlers may run before it resumes. A synchronous stretch of a handler runs to
  completion and its setter calls are rendered together. The system state is the
  component state plus the continuations of the submits in flight; a continuation is the
  part of the handler's effect sequence still to be performed.

  The events are those the rendered controls allow: the file input is always enabled
  (lines 108 to 114); the text area and the example buttons call \<^verbatim>\<open>setPrompt\<close> and
  are disabled while loading (lines 143, 147, 162, 163); the Generate button calls
  \<^verbatim>\<open>handleSubmit\<close> and is disabled while loading or without an image (lines 150,
  151); \<open>Settle i\<close> is the completion of the service call the \<open>i\<close>-th submit in flight
  is waiting for.
\<close>

record System =
  ui :: AppState
  inFlight :: "effect list list"

datatype event =
    SelectFiles "File list option"
  | EditPrompt string
  | ClickGenerate
  | Settle nat

definition initialSystem :: System where
  "initialSystem = \<lparr>ui = initialState, inFlight = []\<rparr>"

text \<open>The effects up to and including the next service call, and what follows it.\<close>

fun segment :: "effect list \<Rightarrow> effect list \<times> effect list" where
  "segment [] = ([], [])"
| "segment (e # es) =
     (if is_call e then ([e], es)
      else (case segment es of (now, later) \<Rightarrow> (e # now, later)))"

definition advance :: "effect list \<Rightarrow> System \<Rightarrow> System" where
  "advance t sys =
     (case segment t of
        (now, later) \<Rightarrow>
          sys\<lparr>ui := run_effects now (ui sys),
              inFlight := (if later = [] then inFlight sys else inFlight sys @ [later])\<rparr>)"

fun step ::
  "(File \<Rightarrow> thrown + string \<times> string) \<Rightarrow> (string \<Rightarrow> string \<Rightarrow> string \<Rightarrow> thrown + string) \<Rightarrow>
   event \<Rightarrow> System \<Rightarrow> System" where
  "step enc edit (SelectFiles files) sys = sys\<lparr>ui := afterImageChange files (ui sys)\<rparr>"
| "step enc edit (EditPrompt p) sys =
     (if isLoading (ui sys) then sys else sys\<lparr>ui := run_effects [SetPrompt p] (ui sys)\<rparr>)"
| "step enc edit ClickGenerate sys =
     (if isLoading (ui sys) \<or> originalImageFile (ui sys) = None then sys
      else advance (snd (handleSubmit enc edit (ui sys))) sys)"
| "step enc edit (Settle i) sys =
     (if i < length (inFlight sys) then
        advance (inFlight sys ! i)
          (sys\<lparr>inFlight := take i (inFlight sys) @ drop (Suc i) (inFlight sys)\<rparr>)
      else sys)"

definition run_events ::
  "(File \<Rightarrow> thrown + string \<times> string) \<Rightarrow> (string \<Rightarrow> string \<Rightarrow> string \<Rightarrow> thrown + string) \<Rightarrow>
   event list \<Rightarrow> System \<Rightarrow> System" where
  "run_events enc edit evs sys = fold (step enc edit) evs sys"

text \<open>
  The condition of claim C9: the loader is never shown together with an error message or
  an edited result.
\<close>

definition loading_clean :: "AppState \<Rightarrow> bool" where
  "loading_clean s = (if isLoading s then error s = None \<and> editedImage s = None else True)"

text \<open>
  What a submit in flight may still have to do: after the second service call, store the
  result or store the error and then leave the loading state, or only leave the loading
  state (when the caught value has no property to read); before it, the second call
  followed by one of these.
\<close>

fun closing :: "effect list \<Rightarrow> bool" where
  "closing [SetIsLoading b] = (\<not> b)"
| "closing [SetError e, SetIsLoading b] = (\<not> b)"
| "closing [SetEditedImage r, SetIsLoading b] = (\<not> b)"
| "closing _ = False"

fun continuation_ok :: "effect list \<Rightarrow> bool" where
  "continuation_ok (CallEditImageWithPrompt b m p # rest) = closing rest"
| "continuation_ok t = closing t"

text \<open>
  The invariant of the system: while loading, nothing stale is shown and exactly one submit
  is in flight; otherwise none is.
\<close>

definition system_ok :: "System \<Rightarrow> bool" where
  "system_ok sys =
     (if isLoading (ui sys) then
        error (ui sys) = None \<and> editedImage (ui sys) = None \<and>
        length (inFlight sys) = 1 \<and> continuation_ok (hd (inFlight sys))
      else inFlight sys = [])"

section \<open>Concrete inputs\<close>

text \<open>
  Inputs on which the theorems below are exercised: a readable PNG blob and a readable
  JPEG blob, a remote capability that answers with commentary followed by two images, one
  that answers with commentary only, one that cannot be reached and gives no message, and
  one that cannot be reached and gives an empty message.
\<close>

definition pngFile :: File where
  "pngFile = \<lparr>fileBytes = [0x89, 0x50, 0x4E, 0x47, 0x0D], fileType = ''image/png'',
              fileReadable = True\<rparr>"

definition jpegFile :: File where
  "jpegFile = \<lparr>fileBytes = [0xFF, 0xD8, 0xFF, 0xE0], fileType = ''image/jpeg'',
               fileReadable = True\<rparr>"


definition imageRemote :: remote where
  "imageRemote b m p =
     Inr [TextPart ''Here is the edit'', ImagePart ''image/png'' ''UFBQ'',
          ImagePart ''image/jpeg'' ''UVFR'']"

definition textRemote :: remote where
  "textRemote b m p = Inr [TextPart ''I cannot edit this image'']"

definition downRemote :: remote where
  "downRemote b m p = Inl None"



definition readyState :: "File \<Rightarrow> string \<Rightarrow> AppState" where
  "readyState file instruction =
     \<lparr>originalImageFile = Some file, editedImage = None, prompt = instruction,
      isLoading = False, error = None\<rparr>"

text \<open>The system after an image was selected, an instruction typed and Generate clicked.\<close>

definition loadingSystem :: System where
  "loadingSystem =
     run_events fileToBase64 (editImageWithPrompt imageRemote ''No image returned'')
       [SelectFiles (Some [pngFile]), EditPrompt ''make it red'', ClickGenerate]
       initialSystem"

section \<open>Basic facts about the handlers\<close>

text \<open>The effect sequence of \<^verbatim>\<open>handleSubmit\<close> on each of its paths.\<close>

lemmas io_defs = emit_def awaitCall_def andThen_def tryCatch_def tryFinally_def

lemma handleSubmit_no_image:
  "originalImageFile s = None \<Longrightarrow>
   handleSubmit enc edit s = (Inr (), [SetError (Some ''Please upload an image first.'')])"
  by (simp add: handleSubmit_def emit_def)

lemma handleSubmit_blank:
  "originalImageFile s = Some f \<Longrightarrow> trim (prompt s) = [] \<Longrightarrow>
   handleSubmit enc edit s = (Inr (), [SetError (Some ''Please enter an editing instruction.'')])"
  by (simp add: handleSubmit_def emit_def)

lemma handleSubmit_encode_fails:
  "originalImageFile s = Some f \<Longrightarrow> trim (prompt s) \<noteq> [] \<Longrightarrow> enc f = Inl (Thrown k msg) \<Longrightarrow>
   handleSubmit enc edit s =
     (Inr (), [SetIsLoading True, SetError None, SetEditedImage None, CallFileToBase64 f,
               SetError (Some (orElse msg ''An unknown error occurred.'')),
               SetIsLoading False])"
  by (simp add: handleSubmit_def io_defs)

lemma handleSubmit_encode_rejects_null:
  "originalImageFile s = Some f \<Longrightarrow> trim (prompt s) \<noteq> [] \<Longrightarrow> enc f = Inl ThrownNull \<Longrightarrow>
   handleSubmit enc edit s =
     (Inl (Thrown TypeError (Some (typeErrorText ''null''))),
      [SetIsLoading True, SetError None, SetEditedImage None, CallFileToBase64 f,
       SetIsLoading False])"
  by (simp add: handleSubmit_def io_defs)

lemma handleSubmit_encode_rejects_undefined:
  "originalImageFile s = Some f \<Longrightarrow> trim (prompt s) \<noteq> [] \<Longrightarrow> enc f = Inl ThrownUndefined \<Longrightarrow>
   handleSubmit enc edit s =
     (Inl (Thrown TypeError (Some (typeErrorText ''undefined''))),
      [SetIsLoading True, SetError None, SetEditedImage None, CallFileToBase64 f,
       SetIsLoading False])"
  by (simp add: handleSubmit_def io_defs)

lemma handleSubmit_edit_fails:
  "originalImageFile s = Some f \<Longrightarrow> trim (prompt s) \<noteq> [] \<Longrightarrow> enc f = Inr (b, m) \<Longrightarrow>
   edit b m (prompt s) = Inl (Thrown k msg) \<Longrightarrow>
   handleSubmit enc edit s =
     (Inr (), [SetIsLoading True, SetError None, SetEditedImage None, CallFileToBase64 f,
               CallEditImageWithPrompt b m (prompt s),
               SetError (Some (orElse msg ''An unknown error occurred.'')),
               SetIsLoading False])"
  by (simp add: handleSubmit_def io_defs)

lemma handleSubmit_edit_rejects_null:
  "originalImageFile s = Some f \<Longrightarrow> trim (prompt s) \<noteq> [] \<Longrightarrow> enc f = Inr (b, m) \<Longrightarrow>
   edit b m (prompt s) = Inl ThrownNull \<Longrightarrow>
   handleSubmit enc edit s =
     (Inl (Thrown TypeError (Some (typeErrorText ''null''))),
      [SetIsLoading True, SetError None, SetEditedImage None, CallFileToBase64 f,
       CallEditImageWithPrompt b m (prompt s), SetIsLoading False])"
  by (simp add: handleSubmit_def io_defs)

lemma handleSubmit_edit_rejects_undefined:
  "originalImageFile s = Some f \<Longrightarrow> trim (prompt s) \<noteq> [] \<Longrightarrow> enc f = Inr (b, m) \<Longrightarrow>
   edit b m (prompt s) = Inl ThrownUndefined \<Longrightarrow>
   handleSubmit enc edit s =
     (Inl (Thrown TypeError (Some (typeErrorText ''undefined''))),
      [SetIsLoading True, SetError None, SetEditedImage None, CallFileToBase64 f,
       CallEditImageWithPrompt b m (prompt s), SetIsLoading False])"
  by (simp add: handleSubmit_def io_defs)

lemmas handleSubmit_paths =
  handleSubmit_encode_fails handleSubmit_encode_rejects_null
  handleSubmit_encode_rejects_undefined handleSubmit_edit_fails
  handleSubmit_edit_rejects_null handleSubmit_edit_rejects_undefined

lemma handleSubmit_succeeds:
  "originalImageFile s = Some f \<Longrightarrow> trim (prompt s) \<noteq> [] \<Longrightarrow> enc f = Inr (b, m) \<Longrightarrow>
   edit b m (prompt s) = Inr g \<Longrightarrow>
   handleSubmit enc edit s =
     (Inr (), [SetIsLoading True, SetError None, SetEditedImage None, CallFileToBase64 f,
               CallEditImageWithPrompt b m (prompt s),
               SetEditedImage (Some (dataUrl m g)),
               SetIsLoading False])"
  by (simp add: handleSubmit_def io_defs)

lemma trim_empty_iff: "trim s = [] \<longleftrightarrow> (\<forall>c \<in> set s. isWhiteSpace c)"
proof
  assume "trim s = []"
  then have "dropWhile isWhiteSpace (rev (dropWhile isWhiteSpace s)) = []"
    by (simp add: trim_def)
  then have all: "\<forall>c \<in> set (dropWhile isWhiteSpace s). isWhiteSpace c"
    by simp
  have "dropWhile isWhiteSpace s = []"
  proof (rule ccontr)
    assume ne: "dropWhile isWhiteSpace s \<noteq> []"
    then have "\<not> isWhiteSpace (hd (dropWhile isWhiteSpace s))" by (rule hd_dropWhile)
    moreover have "hd (dropWhile isWhiteSpace s) \<in> set (dropWhile isWhiteSpace s)"
      using ne by simp
    ultimately show False using all by blast
  qed
  then show "\<forall>c \<in> set s. isWhiteSpace c" by simp
next
  assume "\<forall>c \<in> set s. isWhiteSpace c"
  then show "trim s = []" by (auto simp add: trim_def dest: set_dropWhileD)
qed

text \<open>The concrete inputs, evaluated.\<close>

lemma fileToBase64_pngFile: "fileToBase64 pngFile = Inr (''iVBORw0='', ''image/png'')"
  by code_simp

lemma fileToBase64_jpegFile: "fileToBase64 jpegFile = Inr (''/9j/4A=='', ''image/jpeg'')"
  by code_simp

lemma trim_example: "trim ''remove the background'' \<noteq> []"
  by (simp add: trim_def isWhiteSpace_def)

lemma loadingSystem_ui:
  "ui loadingSystem =
     \<lparr>originalImageFile = Some pngFile, editedImage = None, prompt = ''make it red'',
      isLoading = True, error = None\<rparr>"
  unfolding loadingSystem_def by code_simp

lemma loadingSystem_loading: "isLoading (ui loadingSystem)"
  unfolding loadingSystem_def by code_simp

section \<open>Image selection\<close>

text \<open>
  Claim C10. When the selection event carries no file (the file list is null or empty, as
  when the picker is cancelled), the handler performs no effect and the whole session
  state is unchanged: the selected image, the edited result, the error message, the
  prompt and the loading flag are all as before.
\<close>

theorem handleImageChange_no_file:
  "handleImageChange None = [] \<and> handleImageChange (Some []) = [] \<and>
   afterImageChange None s = s \<and> afterImageChange (Some []) s = s"
  by (simp add: handleImageChange_def afterImageChange_def run_effects_def)

text \<open>
  Claim C5, as the code has it. Selecting a new image stores it and clears the edited
  result and the error message, whatever the state was. The handler does not touch the
  loading flag: from every phase that is not Loading (Idle, Success, Failure) the session
  is Idle afterwards, showing neither a result nor a message, and a session that was
  loading is still loading.
\<close>

theorem select_image_clears:
  assumes "firstFile files = Some file"
  shows "afterImageChange files s =
           s\<lparr>originalImageFile := Some file, editedImage := None, error := None\<rparr> \<and>
         inPhase Loading (afterImageChange files s) = inPhase Loading s \<and>
         (\<not> inPhase Loading s \<longrightarrow>
            inPhase Idle (afterImageChange files s) \<and>
            \<not> inPhase Success (afterImageChange files s) \<and>
            \<not> inPhase Failure (afterImageChange files s))"
  using assms by (simp add: afterImageChange_def handleImageChange_def run_effects_def)

theorem select_image_clears_witness:
  "firstFile (Some [jpegFile]) = Some jpegFile \<and>
   inPhase Failure ((readyState pngFile ''x'')\<lparr>error := Some ''An unknown error occurred.''\<rparr>) \<and>
   afterImageChange (Some [jpegFile])
       ((readyState pngFile ''x'')\<lparr>error := Some ''An unknown error occurred.''\<rparr>) =
     readyState jpegFile ''x'' \<and>
   inPhase Idle (afterImageChange (Some [jpegFile])
       ((readyState pngFile ''x'')\<lparr>error := Some ''An unknown error occurred.''\<rparr>))"
proof -
  have h: "firstFile (Some [jpegFile]) = Some jpegFile" by simp
  show ?thesis
    using h select_image_clears [OF h,
        of "(readyState pngFile ''x'')\<lparr>error := Some ''An unknown error occurred.''\<rparr>"]
    by (simp add: readyState_def)
qed

text \<open>
  The claim as stated, for every prior phase, fails for Loading: the file input stays
  enabled while a submit is in flight, and after a selection made then the session is
  still in Loading, not Idle.
\<close>

theorem select_image_while_loading_counterexample:
  "inPhase Loading (ui loadingSystem) \<and>
   ui (step fileToBase64 (editImageWithPrompt imageRemote ''No image returned'')
         (SelectFiles (Some [jpegFile])) loadingSystem) =
     \<lparr>originalImageFile = Some jpegFile, editedImage = None, prompt = ''make it red'',
      isLoading = True, error = None\<rparr> \<and>
   \<not> inPhase Idle (afterImageChange (Some [jpegFile]) (ui loadingSystem))"
  by (simp add: loadingSystem_ui afterImageChange_def handleImageChange_def run_effects_def)

section \<open>Submitting\<close>

text \<open>
  Claim C2. When a precondition of a submit fails (no image is selected, or the
  instruction is empty or consists of white space only), the handler performs exactly one
  effect, setting the error message: no service is called, the loading flag and every
  other state cell are untouched, so an Idle session stays Idle. The message is that of
  the first failing check, and the image check comes first: without an image the message
  is "Please upload an image first." whatever the instruction is.
\<close>

theorem submit_precondition_failure:
  assumes "originalImageFile s = None \<or> (\<forall>c \<in> set (prompt s). isWhiteSpace c)"
  shows "handleSubmit enc edit s =
           (Inr (), [SetError (Some (if originalImageFile s = None
                                     then ''Please upload an image first.''
                                     else ''Please enter an editing instruction.''))]) \<and>
         filter is_call (snd (handleSubmit enc edit s)) = [] \<and>
         afterSubmit enc edit s =
           s\<lparr>error := Some (if originalImageFile s = None
                            then ''Please upload an image first.''
                            else ''Please enter an editing instruction.'')\<rparr> \<and>
         inPhase Idle (afterSubmit enc edit s) = inPhase Idle s \<and>
         inPhase Loading (afterSubmit enc edit s) = inPhase Loading s"
proof (cases "originalImageFile s")
  case None
  then show ?thesis
    by (simp add: handleSubmit_no_image afterSubmit_def run_effects_def)
next
  case (Some f)
  with assms have "trim (prompt s) = []" by (simp add: trim_empty_iff)
  with Some show ?thesis
    by (simp add: handleSubmit_blank afterSubmit_def run_effects_def)
qed

theorem submit_precondition_failure_witness:
  "list_all isWhiteSpace (prompt (readyState pngFile ''   '')) \<and>
   handleSubmit fileToBase64 (editImageWithPrompt imageRemote ''No image returned'')
       (readyState pngFile ''   '') =
     (Inr (), [SetError (Some ''Please enter an editing instruction.'')]) \<and>
   handleSubmit fileToBase64 (editImageWithPrompt imageRemote ''No image returned'')
       initialState =
     (Inr (), [SetError (Some ''Please upload an image first.'')])"
proof -
  have h1: "\<forall>c \<in> set (prompt (readyState pngFile ''   '')). isWhiteSpace c"
    by (simp add: readyState_def isWhiteSpace_def)
  have h2: "originalImageFile initialState = None" by (simp add: initialState_def)
  show ?thesis
    using h1 h2
      submit_precondition_failure [of "readyState pngFile ''   ''" fileToBase64
        "editImageWithPrompt imageRemote ''No image returned''"]
      submit_precondition_failure [of initialState fileToBase64
        "editImageWithPrompt imageRemote ''No image returned''"]
    by (simp add: readyState_def)
qed

text \<open>
  Claim C3. When the preconditions of a submit pass, the handler first enters Loading and
  clears the previous error and the previous result, then calls the codec on the current
  image, and then, with the encoding the codec returned, calls the client on that
  encoding and the current instruction. These are its only service calls, in that order.
\<close>

theorem submit_call_order:
  assumes "originalImageFile s = Some f" and "trim (prompt s) \<noteq> []"
  shows "take 4 (snd (handleSubmit enc edit s)) =
           [SetIsLoading True, SetError None, SetEditedImage None, CallFileToBase64 f] \<and>
         run_effects (take 3 (snd (handleSubmit enc edit s))) s =
           s\<lparr>isLoading := True, error := None, editedImage := None\<rparr> \<and>
         filter is_call (snd (handleSubmit enc edit s)) =
           CallFileToBase64 f #
             (case enc f of
                Inl e \<Rightarrow> []
              | Inr (base64, mimeType) \<Rightarrow> [CallEditImageWithPrompt base64 mimeType (prompt s)])"
proof (cases "enc f")
  case (Inl e)
  with assms show ?thesis
    by (cases e) (simp_all add: handleSubmit_paths run_effects_def)
next
  case (Inr r)
  obtain b m where r: "r = (b, m)" by (cases r)
  show ?thesis
  proof (cases "edit b m (prompt s)")
    case (Inl e)
    with assms Inr r show ?thesis
      by (cases e) (simp_all add: handleSubmit_paths run_effects_def)
  next
    case (Inr g)
    with assms \<open>enc f = Inr r\<close> r show ?thesis
      by (simp add: handleSubmit_succeeds run_effects_def)
  qed
qed

theorem submit_call_order_witness:
  "trim (prompt (readyState pngFile ''remove the background'')) \<noteq> [] \<and>
   filter is_call
     (snd (handleSubmit fileToBase64 (editImageWithPrompt imageRemote ''No image returned'')
            (readyState pngFile ''remove the background''))) =
     [CallFileToBase64 pngFile,
      CallEditImageWithPrompt ''iVBORw0='' ''image/png'' ''remove the background'']"
proof -
  have h1: "originalImageFile (readyState pngFile ''remove the background'') = Some pngFile"
    by (simp add: readyState_def)
  have h2: "trim (prompt (readyState pngFile ''remove the background'')) \<noteq> []"
    by (simp add: readyState_def trim_def isWhiteSpace_def)
  have enc: "fileToBase64 pngFile = Inr (''iVBORw0='', ''image/png'')"
    by code_simp
  show ?thesis
    using h2 enc
      submit_call_order [OF h1 h2, of fileToBase64
        "editImageWithPrompt imageRemote ''No image returned''"]
    by (simp add: readyState_def)
qed




section \<open>The codec\<close>

lemma b64val_b64char: "n < 64 \<Longrightarrow> b64val (b64char n) = Some n"
  by (auto simp add: b64val_def b64char_def Let_def)

lemma b64char_not_pad: "n < 64 \<Longrightarrow> b64char n \<noteq> CHR ''=''"
  by (auto simp add: b64char_def char_of_eq_iff take_bit_eq_mod)

lemma sextet_bounds:
  fixes a b c :: nat
  assumes "a < 256" "b < 256" "c < 256"
  shows "a div 4 < 64" "(a mod 4) * 16 + b div 16 < 64" "(b mod 16) * 4 + c div 64 < 64"
    "c mod 64 < 64" "(a mod 4) * 16 < 64" "(b mod 16) * 4 < 64"
  using assms by auto

lemma regroup1: fixes a b :: nat shows "b < 256 \<Longrightarrow> (a div 4) * 4 + ((a mod 4) * 16 + b div 16) div 16 = a"
  by auto
lemma regroup1_pad: fixes a :: nat shows "(a div 4) * 4 + ((a mod 4) * 16) div 16 = a"
  by auto
lemma regroup2: fixes a b c :: nat shows "b < 256 \<Longrightarrow> c < 256 \<Longrightarrow>
   (((a mod 4) * 16 + b div 16) mod 16) * 16 + ((b mod 16) * 4 + c div 64) div 4 = b"
  by auto
lemma regroup2_pad: fixes a b :: nat shows "b < 256 \<Longrightarrow>
   (((a mod 4) * 16 + b div 16) mod 16) * 16 + ((b mod 16) * 4) div 4 = b"
  by auto
lemma regroup3: fixes b c :: nat shows "c < 256 \<Longrightarrow>
   (((b mod 16) * 4 + c div 64) mod 4) * 64 + c mod 64 = c"
  by auto

lemma unat_byte: "unat (a :: byte) < 256"
  using unsigned_less [of a] by simp

lemma base64_round_trip: "base64_decode (base64_encode bytes) = Some bytes"
proof (induction bytes rule: base64_encode.induct)
  case 1
  show ?case by simp
next
  case (2 a)
  show ?case
    using unat_byte [of a]
    by (simp add: b64val_b64char b64char_not_pad sextet_bounds regroup1_pad)
next
  case (3 a b)
  show ?case
    using unat_byte [of a] unat_byte [of b]
    by (simp add: b64val_b64char b64char_not_pad sextet_bounds regroup1 regroup2_pad)
next
  case (4 a b c rest)
  then show ?case
    using unat_byte [of a] unat_byte [of b] unat_byte [of c]
    by (simp add: b64val_b64char b64char_not_pad sextet_bounds regroup1 regroup2 regroup3)
qed

text \<open>
  Claim C6. For every byte sequence and every declared media type, encoding a readable
  blob succeeds with the radix-64 text of the bytes as payload (the encoding is a
  function of the input, so it is deterministic), and decoding that payload gives back
  exactly the bytes.
\<close>

theorem encode_round_trip:
  "encode \<lparr>fileBytes = bytes, fileType = t, fileReadable = True\<rparr> =
     Inr \<lparr>payload = base64_encode bytes, mediaType = t\<rparr> \<and>
   base64_decode (payload \<lparr>payload = base64_encode bytes, mediaType = t\<rparr>) = Some bytes"
  by (simp add: encode_def base64_round_trip)

section \<open>The client and the stored result\<close>

lemma firstImagePart_skips:
  "\<forall>p \<in> set before. \<not> isImagePart p \<Longrightarrow>
   firstImagePart (before @ ImagePart mt pl # after) = Some \<lparr>payload = pl, mediaType = mt\<rparr>"
proof (induction before)
  case Nil
  show ?case by simp
next
  case (Cons p ps)
  then show ?case by (cases p) simp_all
qed

lemma firstImagePart_none:
  "\<forall>p \<in> set parts. \<not> isImagePart p \<Longrightarrow> firstImagePart parts = None"
proof (induction parts)
  case Nil
  show ?case by simp
next
  case (Cons p ps)
  then show ?case by (cases p) simp_all
qed

text \<open>
  Claim C1, as the code has it. After a successful edit request the stored result is the
  data URL made of the media type the codec reported for the source image and of the
  payload of the matched image part of the response, verbatim. The media type of the
  matched part itself is not used: the client hands back only the payload, and line 69
  composes it with the \<^verbatim>\<open>mimeType\<close> obtained from \<^verbatim>\<open>fileToBase64\<close>.
\<close>

theorem stored_result:
  assumes "originalImageFile s = Some f" and "trim (prompt s) \<noteq> []"
    and "enc f = Inr (b, m)"
    and "remoteCall b m (prompt s) = Inr parts"
    and "firstImagePart parts = Some part"
  shows "afterSubmit enc (editImageWithPrompt remoteCall noImageText) s =
           s\<lparr>isLoading := False, error := None,
              editedImage := Some (''data:'' @ m @ '';base64,'' @ payload part)\<rparr>"
proof -
  have "editImageWithPrompt remoteCall noImageText b m (prompt s) = Inr (payload part)"
    using assms(4,5) by (simp add: editImageWithPrompt_def requestEdit_def)
  with assms(1-3) show ?thesis
    by (simp add: afterSubmit_def handleSubmit_succeeds run_effects_def dataUrl_def)
qed

theorem stored_result_witness:
  "firstImagePart [TextPart ''Here is the edit'', ImagePart ''image/png'' ''UFBQ'',
                   ImagePart ''image/jpeg'' ''UVFR''] =
     Some \<lparr>payload = ''UFBQ'', mediaType = ''image/png''\<rparr> \<and>
   afterSubmit fileToBase64 (editImageWithPrompt imageRemote ''No image returned'')
       (readyState pngFile ''remove the background'') =
     (readyState pngFile ''remove the background'')
       \<lparr>editedImage := Some ''data:image/png;base64,UFBQ''\<rparr>"
proof -
  have h1: "originalImageFile (readyState pngFile ''remove the background'') = Some pngFile"
    by (simp add: readyState_def)
  have h2: "trim (prompt (readyState pngFile ''remove the background'')) \<noteq> []"
    by (simp add: readyState_def trim_example)
  have h4: "imageRemote ''iVBORw0='' ''image/png'' (prompt (readyState pngFile ''remove the background'')) =
      Inr [TextPart ''Here is the edit'', ImagePart ''image/png'' ''UFBQ'',
           ImagePart ''image/jpeg'' ''UVFR'']"
    by (simp add: imageRemote_def)
  have h5: "firstImagePart [TextPart ''Here is the edit'', ImagePart ''image/png'' ''UFBQ'',
                   ImagePart ''image/jpeg'' ''UVFR''] =
     Some \<lparr>payload = ''UFBQ'', mediaType = ''image/png''\<rparr>"
    by simp
  show ?thesis
    using h5 stored_result [where enc = fileToBase64 and remoteCall = imageRemote and
        noImageText = "''No image returned''", OF h1 h2 fileToBase64_pngFile h4 h5]
    by (simp add: readyState_def)
qed

text \<open>
  The claim as stated fails when the response image has another media type than the
  source: for a JPEG source and a response whose first image part is a PNG, the stored
  result is labelled image/jpeg.
\<close>

theorem stored_media_type_counterexample:
  "fileToBase64 jpegFile = Inr (''/9j/4A=='', ''image/jpeg'') \<and>
   imageRemote ''/9j/4A=='' ''image/jpeg'' ''remove the background'' =
     Inr [TextPart ''Here is the edit'', ImagePart ''image/png'' ''UFBQ'',
          ImagePart ''image/jpeg'' ''UVFR''] \<and>
   requestEdit imageRemote ''No image returned''
       \<lparr>payload = ''/9j/4A=='', mediaType = ''image/jpeg''\<rparr> ''remove the background'' =
     Inr \<lparr>payload = ''UFBQ'', mediaType = ''image/png''\<rparr> \<and>
   editedImage (afterSubmit fileToBase64 (editImageWithPrompt imageRemote ''No image returned'')
       (readyState jpegFile ''remove the background'')) =
     Some ''data:image/jpeg;base64,UFBQ'' \<and>
   editedImage (afterSubmit fileToBase64 (editImageWithPrompt imageRemote ''No image returned'')
       (readyState jpegFile ''remove the background'')) \<noteq>
     Some (dataUrl ''image/png'' ''UFBQ'')"
proof -
  have r: "requestEdit imageRemote ''No image returned''
       \<lparr>payload = ''/9j/4A=='', mediaType = ''image/jpeg''\<rparr> ''remove the background'' =
     Inr \<lparr>payload = ''UFBQ'', mediaType = ''image/png''\<rparr>"
    by (simp add: requestEdit_def imageRemote_def)
  then have e: "editImageWithPrompt imageRemote ''No image returned'' ''/9j/4A=='' ''image/jpeg''
      ''remove the background'' = Inr ''UFBQ''"
    by (simp add: editImageWithPrompt_def)
  have "handleSubmit fileToBase64 (editImageWithPrompt imageRemote ''No image returned'')
       (readyState jpegFile ''remove the background'') =
     (Inr (), [SetIsLoading True, SetError None, SetEditedImage None, CallFileToBase64 jpegFile,
               CallEditImageWithPrompt ''/9j/4A=='' ''image/jpeg'' ''remove the background'',
               SetEditedImage (Some (dataUrl ''image/jpeg'' ''UFBQ'')),
               SetIsLoading False])"
    using handleSubmit_succeeds [of "readyState jpegFile ''remove the background''" jpegFile
        fileToBase64 "''/9j/4A==''" "''image/jpeg''"
        "editImageWithPrompt imageRemote ''No image returned''" "''UFBQ''"]
      fileToBase64_jpegFile e trim_example
    by (simp add: readyState_def)
  then show ?thesis
    using r fileToBase64_jpegFile
    by (simp add: afterSubmit_def run_effects_def dataUrl_def imageRemote_def)
qed

text \<open>
  Claim C7. When the response contains an image part, the submit ends in Success, and the
  stored result carries the payload of the first image part in response order: whatever
  parts without an image come before it, and whatever parts come after it.
\<close>

theorem first_image_part_wins:
  assumes "originalImageFile s = Some f" and "trim (prompt s) \<noteq> []"
    and "enc f = Inr (b, m)"
    and "remoteCall b m (prompt s) = Inr (before @ ImagePart mt pl # after)"
    and "\<forall>p \<in> set before. \<not> isImagePart p"
  shows "afterSubmit enc (editImageWithPrompt remoteCall noImageText) s =
           s\<lparr>isLoading := False, error := None,
              editedImage := Some (''data:'' @ m @ '';base64,'' @ pl)\<rparr> \<and>
         inPhase Success (afterSubmit enc (editImageWithPrompt remoteCall noImageText) s) \<and>
         \<not> inPhase Failure (afterSubmit enc (editImageWithPrompt remoteCall noImageText) s)"
proof -
  have "editImageWithPrompt remoteCall noImageText b m (prompt s) = Inr pl"
    using assms(4) firstImagePart_skips [OF assms(5)]
    by (simp add: editImageWithPrompt_def requestEdit_def)
  with assms(1-3) show ?thesis
    by (simp add: afterSubmit_def handleSubmit_succeeds run_effects_def dataUrl_def)
qed

theorem first_image_part_wins_witness:
  "filter isImagePart [TextPart ''Here is the edit''] = [] \<and>
   afterSubmit fileToBase64 (editImageWithPrompt imageRemote ''No image returned'')
       (readyState pngFile ''remove the background'') =
     (readyState pngFile ''remove the background'')
       \<lparr>editedImage := Some ''data:image/png;base64,UFBQ''\<rparr> \<and>
   inPhase Success
     (afterSubmit fileToBase64 (editImageWithPrompt imageRemote ''No image returned'')
       (readyState pngFile ''remove the background''))"
proof -
  have h1: "originalImageFile (readyState pngFile ''remove the background'') = Some pngFile"
    by (simp add: readyState_def)
  have h2: "trim (prompt (readyState pngFile ''remove the background'')) \<noteq> []"
    by (simp add: readyState_def trim_example)
  have h4: "imageRemote ''iVBORw0='' ''image/png'' (prompt (readyState pngFile ''remove the background'')) =
      Inr ([TextPart ''Here is the edit''] @ ImagePart ''image/png'' ''UFBQ'' #
           [ImagePart ''image/jpeg'' ''UVFR''])"
    by (simp add: imageRemote_def)
  have h5: "\<forall>p \<in> set [TextPart ''Here is the edit'']. \<not> isImagePart p" by simp
  show ?thesis
    using h5 first_image_part_wins [where enc = fileToBase64 and remoteCall = imageRemote and
        noImageText = "''No image returned''", OF h1 h2 fileToBase64_pngFile h4 h5]
    by (simp add: readyState_def dataUrl_def)
qed

text \<open>
  Claim C8. When the response contains no image part, the client fails with
  NoImageInResponse and the submit ends in Failure, showing that failure's message, with
  no result stored: it does not end in Success.
\<close>

theorem no_image_part_fails:
  assumes "originalImageFile s = Some f" and "trim (prompt s) \<noteq> []"
    and "enc f = Inr (b, m)"
    and "remoteCall b m (prompt s) = Inr parts"
    and "\<forall>p \<in> set parts. \<not> isImagePart p"
  shows "editImageWithPrompt remoteCall noImageText b m (prompt s) =
           Inl (Thrown NoImageInResponse (Some noImageText)) \<and>
         afterSubmit enc (editImageWithPrompt remoteCall noImageText) s =
           s\<lparr>isLoading := False, editedImage := None,
              error := Some (orElse (Some noImageText) ''An unknown error occurred.'')\<rparr> \<and>
         inPhase Failure (afterSubmit enc (editImageWithPrompt remoteCall noImageText) s) \<and>
         \<not> inPhase Success (afterSubmit enc (editImageWithPrompt remoteCall noImageText) s)"
proof -
  have e: "editImageWithPrompt remoteCall noImageText b m (prompt s) =
      Inl (Thrown NoImageInResponse (Some noImageText))"
    using assms(4) firstImagePart_none [OF assms(5)]
    by (simp add: editImageWithPrompt_def requestEdit_def)
  with assms(1-3) show ?thesis
    by (simp add: afterSubmit_def handleSubmit_edit_fails run_effects_def)
qed

theorem no_image_part_fails_witness:
  "filter isImagePart [TextPart ''I cannot edit this image''] = [] \<and>
   afterSubmit fileToBase64 (editImageWithPrompt textRemote ''No image returned'')
       (readyState pngFile ''remove the background'') =
     (readyState pngFile ''remove the background'')\<lparr>error := Some ''No image returned''\<rparr> \<and>
   inPhase Failure
     (afterSubmit fileToBase64 (editImageWithPrompt textRemote ''No image returned'')
       (readyState pngFile ''remove the background''))"
proof -
  have h1: "originalImageFile (readyState pngFile ''remove the background'') = Some pngFile"
    by (simp add: readyState_def)
  have h2: "trim (prompt (readyState pngFile ''remove the background'')) \<noteq> []"
    by (simp add: readyState_def trim_example)
  have h4: "textRemote ''iVBORw0='' ''image/png'' (prompt (readyState pngFile ''remove the background'')) =
      Inr [TextPart ''I cannot edit this image'']"
    by (simp add: textRemote_def)
  have h5: "\<forall>p \<in> set [TextPart ''I cannot edit this image'']. \<not> isImagePart p" by simp
  show ?thesis
    using h5 no_image_part_fails [where enc = fileToBase64 and remoteCall = textRemote and
        noImageText = "''No image returned''", OF h1 h2 fileToBase64_pngFile h4 h5]
    by (simp add: readyState_def)
qed


section \<open>The event-driven system\<close>

text \<open>The shape of every accepted submit.\<close>

lemma handleSubmit_accepted:
  assumes "originalImageFile s = Some f" and "trim (prompt s) \<noteq> []"
  shows "\<exists>t. snd (handleSubmit enc edit s) =
               [SetIsLoading True, SetError None, SetEditedImage None, CallFileToBase64 f] @ t \<and>
             continuation_ok t \<and> t \<noteq> []"
proof (cases "enc f")
  case (Inl e)
  with assms show ?thesis by (cases e) (simp_all add: handleSubmit_paths)
next
  case (Inr r)
  obtain b m where r: "r = (b, m)" by (cases r)
  show ?thesis
  proof (cases "edit b m (prompt s)")
    case (Inl e)
    with assms Inr r show ?thesis by (cases e) (simp_all add: handleSubmit_paths)
  next
    case (Inr g)
    with assms \<open>enc f = Inr r\<close> r show ?thesis by (simp add: handleSubmit_succeeds)
  qed
qed

lemma closing_cases:
  "closing t \<Longrightarrow>
     t = [SetIsLoading False] \<or> (\<exists>e. t = [SetError e, SetIsLoading False]) \<or>
     (\<exists>r. t = [SetEditedImage r, SetIsLoading False])"
  by (induction t rule: closing.induct) auto

lemma continuation_ok_cases:
  "continuation_ok t \<Longrightarrow> closing t \<or> (\<exists>b m p rest. t = CallEditImageWithPrompt b m p # rest \<and> closing rest)"
  by (induction t rule: continuation_ok.induct) auto

lemma closing_continuation: "closing t \<Longrightarrow> continuation_ok t"
  by (auto dest!: closing_cases)

lemma advance_closing:
  assumes "closing t"
  shows "isLoading (ui (advance t sys)) = False \<and> inFlight (advance t sys) = inFlight sys"
  using closing_cases [OF assms] by (auto simp add: advance_def run_effects_def)

lemma advance_second_call:
  assumes "closing rest"
  shows "advance (CallEditImageWithPrompt b m p # rest) sys = sys\<lparr>inFlight := inFlight sys @ [rest]\<rparr>"
  using closing_cases [OF assms] by (auto simp add: advance_def run_effects_def)

lemma step_settle_ok:
  assumes "system_ok sys"
  shows "system_ok (step enc edit (Settle i) sys)"
proof (cases "isLoading (ui sys)")
  case False
  with assms show ?thesis by (simp add: system_ok_def)
next
  case True
  with assms obtain t where t: "inFlight sys = [t]" "continuation_ok t"
    and clean: "error (ui sys) = None" "editedImage (ui sys) = None"
    by (cases "inFlight sys") (auto simp add: system_ok_def)
  show ?thesis
  proof (cases i)
    case (Suc n)
    with t assms show ?thesis by simp
  next
    case 0
    from continuation_ok_cases [OF t(2)] show ?thesis
    proof
      assume c: "closing t"
      show ?thesis
        using 0 t advance_closing [OF c, of "sys\<lparr>inFlight := []\<rparr>"]
        by (simp add: system_ok_def)
    next
      assume "\<exists>b m p rest. t = CallEditImageWithPrompt b m p # rest \<and> closing rest"
      then obtain b m p rest where r: "t = CallEditImageWithPrompt b m p # rest" "closing rest"
        by blast
      show ?thesis
        using 0 t r True clean closing_continuation [OF r(2)]
        by (simp add: advance_second_call system_ok_def)
    qed
  qed
qed

lemma step_click_ok:
  assumes "system_ok sys"
  shows "system_ok (step enc edit ClickGenerate sys)"
proof (cases "isLoading (ui sys) \<or> originalImageFile (ui sys) = None")
  case True
  with assms show ?thesis by auto
next
  case False
  then obtain f where f: "originalImageFile (ui sys) = Some f" and idle: "\<not> isLoading (ui sys)"
    by auto
  from idle assms have nil: "inFlight sys = []" by (simp add: system_ok_def)
  show ?thesis
  proof (cases "trim (prompt (ui sys)) = []")
    case True
    with f idle nil show ?thesis
      by (simp add: handleSubmit_blank advance_def run_effects_def system_ok_def)
  next
    case nb: False
    from handleSubmit_accepted [OF f nb, of enc edit]
    obtain t where t: "snd (handleSubmit enc edit (ui sys)) =
        [SetIsLoading True, SetError None, SetEditedImage None, CallFileToBase64 f] @ t"
      "continuation_ok t" "t \<noteq> []" by blast
    with f idle nil show ?thesis
      by (simp add: advance_def run_effects_def system_ok_def)
  qed
qed

lemma step_select_ok:
  assumes "system_ok sys"
  shows "system_ok (step enc edit (SelectFiles files) sys)"
  using assms
  by (cases "firstFile files")
     (auto simp add: system_ok_def afterImageChange_def handleImageChange_def run_effects_def)

lemma step_prompt_ok:
  assumes "system_ok sys"
  shows "system_ok (step enc edit (EditPrompt p) sys)"
  using assms by (auto simp add: system_ok_def run_effects_def)

lemma step_ok: "system_ok sys \<Longrightarrow> system_ok (step enc edit ev sys)"
  by (cases ev) (simp_all only: step_select_ok step_prompt_ok step_click_ok step_settle_ok)

lemma run_events_ok: "system_ok sys \<Longrightarrow> system_ok (run_events enc edit evs sys)"
  unfolding run_events_def
  by (induction evs arbitrary: sys) (simp_all add: step_ok)

lemma initialSystem_ok: "system_ok initialSystem"
  by (simp add: system_ok_def initialSystem_def initialState_def)

text \<open>
  Claim C9. In every state the session can reach, by any sequence of image selections,
  prompt edits, clicks on Generate and completions of service calls, the loader is never
  shown together with an error message or an edited result: while loading, both are
  null.
\<close>

theorem loading_never_stale:
  "loading_clean (ui (run_events enc edit evs initialSystem))"
  using run_events_ok [OF initialSystem_ok, of enc edit evs]
  by (simp add: system_ok_def loading_clean_def split: if_splits)

theorem loading_never_stale_witness:
  "inPhase Loading (ui loadingSystem) \<and> error (ui loadingSystem) = None \<and>
   editedImage (ui loadingSystem) = None"
  using loading_never_stale [of fileToBase64
      "editImageWithPrompt imageRemote ''No image returned''"
      "[SelectFiles (Some [pngFile]), EditPrompt ''make it red'', ClickGenerate]"]
    loadingSystem_loading
  by (simp add: loading_clean_def loadingSystem_def)

end
